theory Spec2Isabelle
  imports Complex_Main "HOL-Library.Word"
begin

section \<open>Common ground: exceptions, integer boxes\<close>

text \<open>
  The exceptions the sources raise (\<^verbatim>\<open>vw_throw\<close>, \<^verbatim>\<open>VW_ASSERT\<close>), each with the message it
  carries. A function that can raise returns \<open>error + 'a\<close>, with \<open>Inl\<close> for the exception.
\<close>

datatype error = ArgumentErr string | NoImplErr string

type_synonym Vector2i = "int \<times> int"

text \<open>
  Modelled from the spec: \<^verbatim>\<open>BBox2i\<close> of \<^verbatim>\<open>vw/Math/BBox.h\<close>, which is not among the sources.
  A rectangle with integer corners, the minimum inclusive and the maximum exclusive, its
  width and height derived from them. The four-argument constructor takes the minimum
  corner and the size, as its uses show (\<^verbatim>\<open>BBox2i(0,0,cols(),rows())\<close> is the whole image).
  The coordinates are \<^verbatim>\<open>int32\<close> in the source; they are read as mathematical integers,
  signed overflow being undefined in C++.
\<close>

record BBox2i =
  bmin :: Vector2i
  bmax :: Vector2i

definition width :: "BBox2i \<Rightarrow> int" where
  "width b = fst (bmax b) - fst (bmin b)"

definition height :: "BBox2i \<Rightarrow> int" where
  "height b = snd (bmax b) - snd (bmin b)"

definition BBox2i_corners :: "Vector2i \<Rightarrow> Vector2i \<Rightarrow> BBox2i" where
  "BBox2i_corners lo hi = \<lparr>bmin = lo, bmax = hi\<rparr>"

definition BBox2i_xywh :: "int \<Rightarrow> int \<Rightarrow> int \<Rightarrow> int \<Rightarrow> BBox2i" where
  "BBox2i_xywh minx miny w h = \<lparr>bmin = (minx, miny), bmax = (minx + w, miny + h)\<rparr>"

definition empty_box :: "BBox2i \<Rightarrow> bool" where
  "empty_box b = (width b \<le> 0 \<or> height b \<le> 0)"

definition vadd :: "Vector2i \<Rightarrow> Vector2i \<Rightarrow> Vector2i" where
  "vadd a b = (fst a + fst b, snd a + snd b)"

definition vsub :: "Vector2i \<Rightarrow> Vector2i \<Rightarrow> Vector2i" where
  "vsub a b = (fst a - fst b, snd a - snd b)"


section \<open>ImageResource.h: image formats and buffers\<close>

text \<open>
  \<^verbatim>\<open>struct ImageFormat\<close>. The three dimensions are \<^verbatim>\<open>uint32\<close>. The two enumerations and
  their size tables (\<^verbatim>\<open>num_channels_nothrow\<close>, \<^verbatim>\<open>channel_size_nothrow\<close>) are declared in
  \<^verbatim>\<open>vw/Image/PixelTypeInfo.h\<close>, which is not among the sources: the format is polymorphic
  in the enumeration types and \<open>complete\<close> takes the two tables as arguments.
\<close>

record ('pf, 'ct) ImageFormat =
  cols :: "32 word"
  rows :: "32 word"
  planes :: "32 word"
  pixel_format :: 'pf
  channel_type :: 'ct

definition complete :: "('pf \<Rightarrow> int) \<Rightarrow> ('ct \<Rightarrow> int) \<Rightarrow> ('pf, 'ct) ImageFormat \<Rightarrow> bool" where
  "complete num_channels_nothrow channel_size_nothrow f =
     (cols f \<noteq> 0
      \<and> rows f \<noteq> 0
      \<and> planes f \<noteq> 0
      \<and> num_channels_nothrow (pixel_format f) > 0
      \<and> channel_size_nothrow (channel_type f) > 0)"

definition same_size :: "('pf, 'ct) ImageFormat \<Rightarrow> ('pf, 'ct) ImageFormat \<Rightarrow> bool" where
  "same_size a b = (cols a = cols b \<and> rows a = rows b \<and> planes a = planes b)"

text \<open>
  \<^verbatim>\<open>void* data\<close> is a handle into storage that the buffer does not own: the allocation it
  points into and a byte offset within that allocation. Pointer arithmetic moves the
  offset and never leaves the allocation.
\<close>

record pointer =
  allocation :: nat
  byte_offset :: int

definition ptr_add :: "pointer \<Rightarrow> int \<Rightarrow> pointer" where
  "ptr_add p n = p\<lparr>byte_offset := byte_offset p + n\<rparr>"

text \<open>\<^verbatim>\<open>struct ImageBuffer\<close>; the strides are \<^verbatim>\<open>ssize_t\<close> byte counts.\<close>

record ('pf, 'ct) ImageBuffer =
  data :: pointer
  format :: "('pf, 'ct) ImageFormat"
  cstride :: int
  rstride :: int
  pstride :: int
  unpremultiplied :: bool

text \<open>
  \<^verbatim>\<open>byte_size\<close> multiplies the \<^verbatim>\<open>int32\<close> plane count by the \<^verbatim>\<open>ssize_t\<close> plane stride and
  returns the product as a \<^verbatim>\<open>size_t\<close>, here of 64 bits: a negative product wraps around.
\<close>

definition byte_size :: "('pf, 'ct) ImageBuffer \<Rightarrow> 64 word" where
  "byte_size b = word_of_int (sint (planes (format b)) * pstride b)"

text \<open>
  \<^verbatim>\<open>ImageBuffer::cropped\<close>: a copy of the descriptor with the handle moved to the box's
  minimum corner and the extent set to the box's size. The assignment of the \<^verbatim>\<open>int32\<close>
  width to the \<^verbatim>\<open>uint32\<close> field converts modulo \<open>2 ^ 32\<close>.
\<close>

definition cropped :: "('pf, 'ct) ImageBuffer \<Rightarrow> BBox2i \<Rightarrow> ('pf, 'ct) ImageBuffer" where
  "cropped b bbox =
     (let self = b;
          self = self\<lparr>data := ptr_add (data self)
                   (cstride b * fst (bmin bbox) + rstride b * snd (bmin bbox))\<rparr>;
          self = self\<lparr>format := (format self)\<lparr>cols := word_of_int (width bbox)\<rparr>\<rparr>;
          self = self\<lparr>format := (format self)\<lparr>rows := word_of_int (height bbox)\<rparr>\<rparr>
      in self)"

text \<open>\<^verbatim>\<open>ImageBuffer::operator()\<close>: the address of the pixel at \<open>(i, j, p)\<close>.\<close>

definition pixel_address :: "('pf, 'ct) ImageBuffer \<Rightarrow> int \<Rightarrow> int \<Rightarrow> int \<Rightarrow> pointer" where
  "pixel_address b i j p = ptr_add (data b) (i * cstride b + j * rstride b + p * pstride b)"


section \<open>Floating-point arithmetic\<close>

text \<open>
  \<^verbatim>\<open>float\<close> and \<^verbatim>\<open>double\<close> values are elements of a type \<open>'f\<close> that is left open, and the
  arithmetic on them is an argument of every function that computes with them: the
  rounding of a decimal literal, the conversion of an integer, the four operations and
  the comparison \<open><\<close> (\<open>a > b\<close> is read as \<open>b < a\<close>). What is proved holds for every
  arithmetic, IEEE 754 with its NaN and infinities among them.
\<close>

record 'f float_ops =
  f_lit :: "rat \<Rightarrow> 'f"
  f_of_int :: "int \<Rightarrow> 'f"
  f_add :: "'f \<Rightarrow> 'f \<Rightarrow> 'f"
  f_sub :: "'f \<Rightarrow> 'f \<Rightarrow> 'f"
  f_mul :: "'f \<Rightarrow> 'f \<Rightarrow> 'f"
  f_div :: "'f \<Rightarrow> 'f \<Rightarrow> 'f"
  f_less :: "'f \<Rightarrow> 'f \<Rightarrow> bool"

text \<open>Exact rational arithmetic, the arithmetic of the worked examples.\<close>

definition rat_ops :: "rat float_ops" where
  "rat_ops = \<lparr>f_lit = (\<lambda>q. q), f_of_int = of_int, f_add = (+), f_sub = (-),
     f_mul = (*), f_div = (/), f_less = (<)\<rparr>"


section \<open>Views: what CorrelatorView.h takes from the image library\<close>

text \<open>
  Modelled from the spec: the image views of \<^verbatim>\<open>vw/Image\<close> (\<^verbatim>\<open>ImageViewRef\<close>, \<^verbatim>\<open>ImageView\<close>,
  \<^verbatim>\<open>edge_extend\<close>, \<^verbatim>\<open>crop\<close>, \<^verbatim>\<open>CropView\<close>), which are not among the sources. A view exposes
  its columns, rows, planes and channels and a pixel accessor; the accessor of a plain
  view is meaningful inside \<open>[0, cols) \<times> [0, rows)\<close> only. The views here have one plane
  of interest, so the accessor takes \<open>(i, j)\<close>.
\<close>

record 'px image =
  im_cols :: int
  im_rows :: int
  im_planes :: int
  im_channels :: int
  pixel :: "int \<Rightarrow> int \<Rightarrow> 'px"

definition in_bounds :: "'px image \<Rightarrow> int \<Rightarrow> int \<Rightarrow> bool" where
  "in_bounds im i j = (0 \<le> i \<and> 0 \<le> j \<and> i < im_cols im \<and> j < im_rows im)"

text \<open>
  Modelled from the spec: \<^verbatim>\<open>edge_extend(view, ZeroEdgeExtension())\<close> removes the domain
  bounds; a read outside the parent's extent is satisfied by the policy, here the
  default-constructed (zero) pixel, and does not reach the parent.
\<close>

definition edge_extend_zero :: "'px::zero image \<Rightarrow> 'px image" where
  "edge_extend_zero im =
     im\<lparr>pixel := (\<lambda>i j. if in_bounds im i j then pixel im i j else 0)\<rparr>"

text \<open>
  Modelled from the spec: \<^verbatim>\<open>crop(view, bbox)\<close> restricts and offsets the coordinate domain:
  the crop has the box's size and its pixel \<open>(i, j)\<close> is the parent's pixel at
  \<open>bbox.min() + (i, j)\<close>. Assigning the crop to an \<^verbatim>\<open>ImageView\<close> rasterizes exactly these
  pixels.
\<close>

definition crop :: "'px image \<Rightarrow> BBox2i \<Rightarrow> 'px image" where
  "crop im bbox =
     im\<lparr>im_cols := width bbox, im_rows := height bbox,
        pixel := (\<lambda>i j. pixel im (fst (bmin bbox) + i) (snd (bmin bbox) + j))\<rparr>"

text \<open>
  Modelled from the spec: \<^verbatim>\<open>CropView<ImageView<pixel_type> >\<close>, the child image together
  with the offset and the size taken from the box it is constructed with.
\<close>

record 'px CropView =
  child :: "'px image"
  ci :: int
  cj :: int
  di :: int
  dj :: int

definition CropView_of :: "'px image \<Rightarrow> BBox2i \<Rightarrow> 'px CropView" where
  "CropView_of im bbox =
     \<lparr>child = im, ci = fst (bmin bbox), cj = snd (bmin bbox),
      di = width bbox, dj = height bbox\<rparr>"

definition crop_cols :: "'px CropView \<Rightarrow> int" where
  "crop_cols c = di c"

definition crop_rows :: "'px CropView \<Rightarrow> int" where
  "crop_rows c = dj c"

definition crop_at :: "'px CropView \<Rightarrow> int \<Rightarrow> int \<Rightarrow> 'px" where
  "crop_at c i j = pixel (child c) (ci c + i) (cj c + j)"

text \<open>
  Modelled from the spec: \<^verbatim>\<open>PixelDisparity<float>\<close> of \<^verbatim>\<open>vw/Stereo/DisparityMap.h\<close>: the
  horizontal and vertical offsets (\<^verbatim>\<open>h()\<close>, \<^verbatim>\<open>v()\<close>) and the flag of a missing match.
\<close>

record 'f PixelDisparity =
  disp_h :: 'f
  disp_v :: 'f
  missing :: bool

text \<open>
  Modelled from the spec: the floating-point box \<^verbatim>\<open>BBox2\<close> handed to the correlator, with
  the same four-argument constructor as \<^verbatim>\<open>BBox2i\<close>.
\<close>

record 'f BBox2 =
  fmin :: "'f \<times> 'f"
  fmax :: "'f \<times> 'f"

definition BBox2_xywh :: "'f float_ops \<Rightarrow> 'f \<Rightarrow> 'f \<Rightarrow> 'f \<Rightarrow> 'f \<Rightarrow> 'f BBox2" where
  "BBox2_xywh fo minx miny w h =
     \<lparr>fmin = (minx, miny), fmax = (f_add fo minx w, f_add fo miny h)\<rparr>"

text \<open>
  \<^verbatim>\<open>vw::stereo::PyramidCorrelator\<close> (\<^verbatim>\<open>vw/Stereo/PyramidCorrelator.h\<close>) is not among the
  sources. The object is the record of the arguments its constructor and
  \<^verbatim>\<open>set_debug_mode\<close> receive; what its call operator computes from two tiles and the
  preprocessing function is an argument \<open>corr\<close> of \<open>prerasterize\<close>.
\<close>

record 'f PyramidCorrelator =
  pc_search_range :: "'f BBox2"
  pc_kernel_size :: Vector2i
  pc_cross_corr_threshold :: 'f
  pc_corr_score_threshold :: 'f
  pc_do_h_subpixel :: bool
  pc_do_v_subpixel :: bool
  pc_do_affine_subpixel :: bool
  pc_debug_prefix :: string

type_synonym ('px, 'pre, 'f) correlator_call =
  "'f PyramidCorrelator \<Rightarrow> 'px image \<Rightarrow> 'px image \<Rightarrow> 'pre \<Rightarrow> 'f PixelDisparity image"


section \<open>CorrelatorView.h\<close>

record ('px, 'pre, 'f) CorrelatorView =
  m_left_image :: "'px image"
  m_right_image :: "'px image"
  m_preproc_func :: 'pre
  m_search_range :: BBox2i
  m_kernel_size :: Vector2i
  m_do_h_subpixel :: bool
  m_do_v_subpixel :: bool
  m_do_affine_subpixel :: bool
  m_cross_corr_threshold :: 'f
  m_corr_score_threshold :: 'f
  m_debug_prefix :: string

text \<open>
  The constructor: two assertions, each raising \<^verbatim>\<open>ArgumentErr\<close> with a message that ends in
  a newline, then the default settings. The debug prefix starts as the empty string.
\<close>

definition CorrelatorView_new ::
  "'f float_ops \<Rightarrow> 'px image \<Rightarrow> 'px image \<Rightarrow> 'pre \<Rightarrow> error + ('px, 'pre, 'f) CorrelatorView" where
  "CorrelatorView_new fo left_image right_image preproc_func =
     (if \<not> (im_cols left_image = im_cols right_image \<and> im_rows left_image = im_rows right_image)
      then Inl (ArgumentErr
        (''CorrelatorView::CorrelatorView(): input image dimensions do not agree.'' @ [CHR 0x0A]))
      else if \<not> (im_channels left_image = 1 \<and> im_planes left_image = 1 \<and>
                  im_channels right_image = 1 \<and> im_planes right_image = 1)
      then Inl (ArgumentErr
        (''CorrelatorView::CorrelatorView(): multi-channel, multi-plane images not supported.''
           @ [CHR 0x0A]))
      else Inr \<lparr>m_left_image = left_image, m_right_image = right_image,
                 m_preproc_func = preproc_func,
                 m_search_range = BBox2i_xywh (-50) (-50) 100 100,
                 m_kernel_size = (24, 24),
                 m_do_h_subpixel = True,
                 m_do_v_subpixel = True,
                 m_do_affine_subpixel = False,
                 m_cross_corr_threshold = f_lit fo 2,
                 m_corr_score_threshold = f_lit fo (13 / 10),
                 m_debug_prefix = []\<rparr>)"

text \<open>The accessors: each setter stores its argument, each getter returns the field.\<close>

definition set_search_range ::
  "BBox2i \<Rightarrow> ('px, 'pre, 'f) CorrelatorView \<Rightarrow> ('px, 'pre, 'f) CorrelatorView" where
  "set_search_range rng cv = cv\<lparr>m_search_range := rng\<rparr>"

definition search_range :: "('px, 'pre, 'f) CorrelatorView \<Rightarrow> BBox2i" where
  "search_range cv = m_search_range cv"

definition set_kernel_size ::
  "Vector2i \<Rightarrow> ('px, 'pre, 'f) CorrelatorView \<Rightarrow> ('px, 'pre, 'f) CorrelatorView" where
  "set_kernel_size sz cv = cv\<lparr>m_kernel_size := sz\<rparr>"

definition kernel_size :: "('px, 'pre, 'f) CorrelatorView \<Rightarrow> Vector2i" where
  "kernel_size cv = m_kernel_size cv"

definition set_subpixel_options ::
  "bool \<Rightarrow> bool \<Rightarrow> bool \<Rightarrow> ('px, 'pre, 'f) CorrelatorView \<Rightarrow> ('px, 'pre, 'f) CorrelatorView" where
  "set_subpixel_options do_horizontal do_vertical do_affine_subpixel cv =
     cv\<lparr>m_do_h_subpixel := do_horizontal, m_do_v_subpixel := do_vertical,
        m_do_affine_subpixel := do_affine_subpixel\<rparr>"

definition set_cross_corr_threshold ::
  "'f \<Rightarrow> ('px, 'pre, 'f) CorrelatorView \<Rightarrow> ('px, 'pre, 'f) CorrelatorView" where
  "set_cross_corr_threshold threshold cv = cv\<lparr>m_cross_corr_threshold := threshold\<rparr>"

definition set_corr_score_threshold ::
  "'f \<Rightarrow> ('px, 'pre, 'f) CorrelatorView \<Rightarrow> ('px, 'pre, 'f) CorrelatorView" where
  "set_corr_score_threshold threshold cv = cv\<lparr>m_corr_score_threshold := threshold\<rparr>"

definition set_debug_mode ::
  "string \<Rightarrow> ('px, 'pre, 'f) CorrelatorView \<Rightarrow> ('px, 'pre, 'f) CorrelatorView" where
  "set_debug_mode debug_file_prefix cv = cv\<lparr>m_debug_prefix := debug_file_prefix\<rparr>"

definition view_cols :: "('px, 'pre, 'f) CorrelatorView \<Rightarrow> int" where
  "view_cols cv = im_cols (m_left_image cv)"

definition view_rows :: "('px, 'pre, 'f) CorrelatorView \<Rightarrow> int" where
  "view_rows cv = im_rows (m_left_image cv)"

definition view_planes :: "('px, 'pre, 'f) CorrelatorView \<Rightarrow> int" where
  "view_planes cv = 1"

text \<open>
  \<^verbatim>\<open>operator()(double i, double j, int32 p)\<close>: the body throws before the \<^verbatim>\<open>return\<close>
  statement is reached. The coordinate type is left open.
\<close>

definition operator_call ::
  "('px, 'pre, 'f) CorrelatorView \<Rightarrow> 'd \<Rightarrow> 'd \<Rightarrow> int \<Rightarrow> error + 'f PixelDisparity" where
  "operator_call cv i j p =
     Inl (NoImplErr
       ''CorrelatorView::operator()(double i, double j, int32 p) has not been implemented.'')"

subsection \<open>prerasterize\<close>

text \<open>
  The messages \<open>prerasterize\<close> sends to \<^verbatim>\<open>vw_out\<close>, kept as what they report instead of
  as formatted text. The log is the one piece of state outside the object that the
  method writes; it is passed in and returned.
\<close>

datatype log_entry =
  Info_rasterizing BBox2i
| Debug_search_range BBox2i
| Debug_left_crop_bbox BBox2i
| Debug_right_crop_bbox BBox2i

text \<open>Decimal output of an \<^verbatim>\<open>int\<close> by \<^verbatim>\<open>operator<<\<close>, for the debug file prefix.\<close>

function show_nat :: "nat \<Rightarrow> string" where
  "show_nat n =
     (if n < 10 then [''0123456789'' ! n]
      else show_nat (n div 10) @ [''0123456789'' ! (n mod 10)])"
  by pat_completeness auto
termination
  by (relation "measure (\<lambda>n. n)") auto

declare show_nat.simps [simp del]

definition show_int :: "int \<Rightarrow> string" where
  "show_int i = (if i < 0 then CHR ''-'' # show_nat (nat (- i)) else show_nat (nat i))"

text \<open>
  Lines 111 to 119: the right crop is the box moved by the search range; the left crop
  starts at the box's minimum and takes the right crop's size.
\<close>

definition right_crop_search :: "('px, 'pre, 'f) CorrelatorView \<Rightarrow> BBox2i \<Rightarrow> BBox2i" where
  "right_crop_search cv bbox =
     BBox2i_corners (vadd (bmin bbox) (bmin (m_search_range cv)))
                    (vadd (bmax bbox) (bmax (m_search_range cv)))"

definition left_crop_sized :: "('px, 'pre, 'f) CorrelatorView \<Rightarrow> BBox2i \<Rightarrow> BBox2i" where
  "left_crop_sized cv bbox =
     (let left_crop_bbox = bbox;
          right_crop_bbox = right_crop_search cv bbox
      in left_crop_bbox\<lparr>bmax := vadd (bmin left_crop_bbox)
                                    (width right_crop_bbox, height right_crop_bbox)\<rparr>)"

text \<open>Lines 123 to 126: the adjustment of a box for the kernel.\<close>

definition kernel_adjust :: "Vector2i \<Rightarrow> BBox2i \<Rightarrow> BBox2i" where
  "kernel_adjust ks b =
     (let b = b\<lparr>bmin := vsub (bmin b) (fst ks, snd ks)\<rparr>;
          b = b\<lparr>bmax := vadd (bmax b) (fst ks, snd ks)\<rparr>
      in b)"

definition right_crop_bbox :: "('px, 'pre, 'f) CorrelatorView \<Rightarrow> BBox2i \<Rightarrow> BBox2i" where
  "right_crop_bbox cv bbox = kernel_adjust (m_kernel_size cv) (right_crop_search cv bbox)"

definition left_crop_bbox :: "('px, 'pre, 'f) CorrelatorView \<Rightarrow> BBox2i \<Rightarrow> BBox2i" where
  "left_crop_bbox cv bbox = kernel_adjust (m_kernel_size cv) (left_crop_sized cv bbox)"

text \<open>Lines 135 and 136: the two tiles handed to the correlator.\<close>

definition cropped_left_image ::
  "('px::zero, 'pre, 'f) CorrelatorView \<Rightarrow> BBox2i \<Rightarrow> 'px image" where
  "cropped_left_image cv bbox =
     crop (edge_extend_zero (m_left_image cv)) (left_crop_bbox cv bbox)"

definition cropped_right_image ::
  "('px::zero, 'pre, 'f) CorrelatorView \<Rightarrow> BBox2i \<Rightarrow> 'px image" where
  "cropped_right_image cv bbox =
     crop (edge_extend_zero (m_right_image cv)) (right_crop_bbox cv bbox)"

text \<open>Lines 140 to 150: the correlator object, with the debug prefix when one is set.\<close>

definition make_correlator ::
  "'f float_ops \<Rightarrow> ('px, 'pre, 'f) CorrelatorView \<Rightarrow> BBox2i \<Rightarrow> 'f PyramidCorrelator" where
  "make_correlator fo cv bbox =
     (let correlator =
            \<lparr>pc_search_range =
               BBox2_xywh fo (f_of_int fo 0) (f_of_int fo 0)
                 (f_of_int fo (width (m_search_range cv)))
                 (f_of_int fo (height (m_search_range cv))),
             pc_kernel_size = (fst (m_kernel_size cv), snd (m_kernel_size cv)),
             pc_cross_corr_threshold = m_cross_corr_threshold cv,
             pc_corr_score_threshold = m_corr_score_threshold cv,
             pc_do_h_subpixel = m_do_h_subpixel cv,
             pc_do_v_subpixel = m_do_v_subpixel cv,
             pc_do_affine_subpixel = m_do_affine_subpixel cv,
             pc_debug_prefix = []\<rparr>
      in if length (m_debug_prefix cv) \<noteq> 0
         then correlator\<lparr>pc_debug_prefix :=
                m_debug_prefix cv @
                (''-'' @ show_int (fst (bmin bbox)) @ ''-'' @ show_int (fst (bmax bbox)) @
                 ''_'' @ show_int (snd (bmin bbox)) @ ''-'' @ show_int (snd (bmax bbox)) @ ''-'')\<rparr>
         else correlator)"

text \<open>Line 152: the disparity map the correlator returns for the two tiles.\<close>

definition disparity_map ::
  "('px::zero, 'pre, 'f) correlator_call \<Rightarrow> 'f float_ops \<Rightarrow> ('px, 'pre, 'f) CorrelatorView \<Rightarrow>
     BBox2i \<Rightarrow> 'f PixelDisparity image" where
  "disparity_map corr fo cv bbox =
     corr (make_correlator fo cv bbox) (cropped_left_image cv bbox)
       (cropped_right_image cv bbox) (m_preproc_func cv)"

text \<open>
  Lines 156 to 161: the two nested loops over the disparity map. \<open>update_pixel\<close> is the
  assignment through the reference \<^verbatim>\<open>disparity_map(u,v)\<close>; \<^verbatim>\<open>float += int\<close> converts the
  integer and adds.
\<close>

definition update_pixel :: "int \<Rightarrow> int \<Rightarrow> ('a \<Rightarrow> 'a) \<Rightarrow> 'a image \<Rightarrow> 'a image" where
  "update_pixel u v f im =
     im\<lparr>pixel := (\<lambda>i j. if i = u \<and> j = v then f (pixel im i j) else pixel im i j)\<rparr>"

definition adjust_pixel ::
  "'f float_ops \<Rightarrow> BBox2i \<Rightarrow> int \<Rightarrow> int \<Rightarrow> 'f PixelDisparity image \<Rightarrow> 'f PixelDisparity image" where
  "adjust_pixel fo sr u v dm =
     (if \<not> missing (pixel dm u v)
      then (let dm = update_pixel u v
                  (\<lambda>d. d\<lparr>disp_h := f_add fo (disp_h d) (f_of_int fo (fst (bmin sr)))\<rparr>) dm;
                dm = update_pixel u v
                  (\<lambda>d. d\<lparr>disp_v := f_add fo (disp_v d) (f_of_int fo (snd (bmin sr)))\<rparr>) dm
            in dm)
      else dm)"

function adjust_row ::
  "'f float_ops \<Rightarrow> BBox2i \<Rightarrow> int \<Rightarrow> int \<Rightarrow> 'f PixelDisparity image \<Rightarrow> 'f PixelDisparity image" where
  "adjust_row fo sr v u dm =
     (if u < im_cols dm then adjust_row fo sr v (u + 1) (adjust_pixel fo sr u v dm) else dm)"
  by pat_completeness auto
termination
proof (relation "measure (\<lambda>(fo, sr, v, u, dm). nat (im_cols dm - u))")
  show "wf (measure (\<lambda>(fo, sr, v, u, dm). nat (im_cols dm - u)))"
    by simp
next
  fix fo :: "'f float_ops" and sr :: BBox2i and v u :: int and dm :: "'f PixelDisparity image"
  assume less: "u < im_cols dm"
  have "im_cols (adjust_pixel fo sr u v dm) = im_cols dm"
    by (simp add: adjust_pixel_def update_pixel_def Let_def)
  with less show "((fo, sr, v, u + 1, adjust_pixel fo sr u v dm), (fo, sr, v, u, dm))
          \<in> measure (\<lambda>(fo, sr, v, u, dm). nat (im_cols dm - u))"
    by simp
qed

declare adjust_row.simps [simp del]

function adjust_rows ::
  "'f float_ops \<Rightarrow> BBox2i \<Rightarrow> int \<Rightarrow> 'f PixelDisparity image \<Rightarrow> 'f PixelDisparity image" where
  "adjust_rows fo sr v dm =
     (if v < im_rows dm then adjust_rows fo sr (v + 1) (adjust_row fo sr v 0 dm) else dm)"
  by pat_completeness auto
termination
proof (relation "measure (\<lambda>(fo, sr, v, dm). nat (im_rows dm - v))")
  show "wf (measure (\<lambda>(fo, sr, v, dm). nat (im_rows dm - v)))"
    by simp
next
  fix fo :: "'f float_ops" and sr :: BBox2i and v :: int and dm :: "'f PixelDisparity image"
  assume less: "v < im_rows dm"
  have keep: "im_rows (adjust_row fo sr v u d) = im_rows d" for u d
  proof (induction fo sr v u d rule: adjust_row.induct)
    case (1 fo sr v u dm)
    have px: "im_rows (adjust_pixel fo sr u v dm) = im_rows dm"
      by (simp add: adjust_pixel_def update_pixel_def Let_def)
    show ?case
    proof (cases "u < im_cols dm")
      case True
      then have "adjust_row fo sr v u dm = adjust_row fo sr v (u + 1) (adjust_pixel fo sr u v dm)"
        by (subst adjust_row.simps) simp
      with True "1.IH" px show ?thesis
        by simp
    next
      case False
      then have "adjust_row fo sr v u dm = dm"
        by (subst adjust_row.simps) simp
      then show ?thesis
        by simp
    qed
  qed
  from less have "nat (im_rows dm - (v + 1)) < nat (im_rows dm - v)"
    by simp
  then show "((fo, sr, v + 1, adjust_row fo sr v 0 dm), (fo, sr, v, dm))
          \<in> measure (\<lambda>(fo, sr, v, dm). nat (im_rows dm - v))"
    by (simp only: in_measure split_conv keep)
qed

declare adjust_rows.simps [simp del]

definition adjust_disparities ::
  "'f float_ops \<Rightarrow> BBox2i \<Rightarrow> 'f PixelDisparity image \<Rightarrow> 'f PixelDisparity image" where
  "adjust_disparities fo sr dm = adjust_rows fo sr 0 dm"

text \<open>
  \<open>prerasterize\<close>: the log entries, the disparity map adjusted in place, and the crop that
  places it at the coordinates of the box.
\<close>

definition prerasterize ::
  "('px::zero, 'pre, 'f) correlator_call \<Rightarrow> 'f float_ops \<Rightarrow> ('px, 'pre, 'f) CorrelatorView \<Rightarrow>
     BBox2i \<Rightarrow> log_entry list \<Rightarrow> 'f PixelDisparity CropView \<times> log_entry list" where
  "prerasterize corr fo cv bbox vw_out =
     (let vw_out = vw_out @ [Info_rasterizing bbox];
          vw_out = vw_out @ [Debug_search_range (m_search_range cv)];
          vw_out = vw_out @ [Debug_left_crop_bbox (left_crop_bbox cv bbox)];
          vw_out = vw_out @ [Debug_right_crop_bbox (right_crop_bbox cv bbox)];
          dm = adjust_disparities fo (m_search_range cv) (disparity_map corr fo cv bbox)
      in (CropView_of dm
            (BBox2i_xywh (fst (m_kernel_size cv) - fst (bmin bbox))
                         (snd (m_kernel_size cv) - snd (bmin bbox))
                         (width bbox) (height bbox)),
          vw_out))"

text \<open>
  \<open>rasterize\<close> hands the prerasterized crop, the destination and the box to the generic
  \<^verbatim>\<open>vw::rasterize\<close> of the image library, which is an argument here.
\<close>

definition rasterize ::
  "('f PixelDisparity CropView \<Rightarrow> 'dest \<Rightarrow> BBox2i \<Rightarrow> 'dest) \<Rightarrow>
     ('px::zero, 'pre, 'f) correlator_call \<Rightarrow> 'f float_ops \<Rightarrow> ('px, 'pre, 'f) CorrelatorView \<Rightarrow>
     'dest \<Rightarrow> BBox2i \<Rightarrow> log_entry list \<Rightarrow> 'dest \<times> log_entry list" where
  "rasterize vw_rasterize corr fo cv dest bbox vw_out =
     (let (pre, vw_out) = prerasterize corr fo cv bbox vw_out
      in (vw_rasterize pre dest bbox, vw_out))"


section \<open>The optimizer: levenberg_marquardt\<close>


















section \<open>Worked examples\<close>

text \<open>
  Concrete inputs on which the definitions are evaluated. A four by four tile with
  integer pixels, an empty view (no columns, rows or planes), and the view the
  constructor builds from two copies of the tile.
\<close>

definition tile4 :: "int image" where
  "tile4 = \<lparr>im_cols = 4, im_rows = 4, im_planes = 1, im_channels = 1,
             pixel = (\<lambda>i j. 1 + i + 4 * j)\<rparr>"

definition no_image :: "int image" where
  "no_image = \<lparr>im_cols = 0, im_rows = 0, im_planes = 0, im_channels = 1,
                pixel = (\<lambda>i j. 0)\<rparr>"

definition default_view :: "(int, unit, rat) CorrelatorView" where
  "default_view =
     \<lparr>m_left_image = tile4, m_right_image = tile4, m_preproc_func = (),
      m_search_range = \<lparr>bmin = (- 50, - 50), bmax = (50, 50)\<rparr>,
      m_kernel_size = (24, 24),
      m_do_h_subpixel = True, m_do_v_subpixel = True, m_do_affine_subpixel = False,
      m_cross_corr_threshold = 2, m_corr_score_threshold = 13 / 10,
      m_debug_prefix = []\<rparr>"

text \<open>
  The same view with a kernel of one pixel and a search range of two by two offsets
  starting at \<open>(- 1, 2)\<close>, and a stand-in for the correlator: its disparity map has the size
  of the left tile, the pixel \<open>(i, j)\<close> holds the offsets \<open>(i, j)\<close>, and the pixels of the
  diagonal are missing.
\<close>

definition small_view :: "(int, unit, rat) CorrelatorView" where
  "small_view = set_kernel_size (1, 1) (set_search_range (BBox2i_xywh (- 1) 2 2 2) default_view)"

definition ramp_correlator :: "(int, unit, rat) correlator_call" where
  "ramp_correlator pc left_tile right_tile pre =
     \<lparr>im_cols = im_cols left_tile, im_rows = im_rows left_tile, im_planes = 1, im_channels = 3,
      pixel = (\<lambda>i j. \<lparr>disp_h = of_int i, disp_v = of_int j, missing = (i = j)\<rparr>)\<rparr>"




section \<open>Properties of image formats and buffers\<close>

text \<open>
  Claim C8. For every image format, \<open>complete\<close> holds if and only if the numbers of columns,
  rows and planes are all positive, the pixel format has a positive number of channels and
  the channel type has a positive size. The dimensions are unsigned, so nonzero and
  positive are the same; the two tables are arbitrary.
\<close>

theorem complete_iff:
  "complete nch csz f \<longleftrightarrow>
     (0 < unat (cols f) \<and> 0 < unat (rows f) \<and> 0 < unat (planes f)
      \<and> 0 < nch (pixel_format f) \<and> 0 < csz (channel_type f))"
  by (simp add: complete_def unat_gt_0)

text \<open>
  The statement at a complete format, at one whose pixel format has no channels, and at
  one without columns.
\<close>

theorem complete_iff_witness:
  "complete (\<lambda>pf. if pf then (1::int) else 0) (\<lambda>ct. int ct)
     \<lparr>cols = 640, rows = 480, planes = 1, pixel_format = True, channel_type = (4::nat)\<rparr>
   \<and> \<not> complete (\<lambda>pf. if pf then (1::int) else 0) (\<lambda>ct. int ct)
     \<lparr>cols = 640, rows = 480, planes = 1, pixel_format = False, channel_type = (4::nat)\<rparr>
   \<and> \<not> complete (\<lambda>pf. if pf then (1::int) else 0) (\<lambda>ct. int ct)
     \<lparr>cols = 0, rows = 480, planes = 1, pixel_format = True, channel_type = (4::nat)\<rparr>"
  by (simp add: complete_iff)

lemma cropped_fields:
  "data (cropped b bbox) = ptr_add (data b) (cstride b * fst (bmin bbox) + rstride b * snd (bmin bbox))"
  "cols (format (cropped b bbox)) = word_of_int (width bbox)"
  "rows (format (cropped b bbox)) = word_of_int (height bbox)"
  "planes (format (cropped b bbox)) = planes (format b)"
  "pixel_format (format (cropped b bbox)) = pixel_format (format b)"
  "channel_type (format (cropped b bbox)) = channel_type (format b)"
  "cstride (cropped b bbox) = cstride b"
  "rstride (cropped b bbox) = rstride b"
  "pstride (cropped b bbox) = pstride b"
  "unpremultiplied (cropped b bbox) = unpremultiplied b"
  by (simp_all add: cropped_def Let_def)

text \<open>
  Claim C9. For every buffer and box, \<open>cropped\<close> changes the handle's offset, which advances
  by \<open>cstride * bbox.min().x() + rstride * bbox.min().y()\<close> inside the same allocation, and
  the format's columns and rows, which become the box's width and height (converted to
  \<^verbatim>\<open>uint32\<close>); the planes, the pixel format, the channel type, the three strides and the
  premultiplication flag are those of the original buffer. No storage is involved: the
  result is computed from the descriptor alone.
\<close>

theorem cropped_frame:
  "allocation (data (cropped b bbox)) = allocation (data b)
   \<and> byte_offset (data (cropped b bbox)) =
       byte_offset (data b) + (cstride b * fst (bmin bbox) + rstride b * snd (bmin bbox))
   \<and> cols (format (cropped b bbox)) = word_of_int (width bbox)
   \<and> rows (format (cropped b bbox)) = word_of_int (height bbox)
   \<and> planes (format (cropped b bbox)) = planes (format b)
   \<and> pixel_format (format (cropped b bbox)) = pixel_format (format b)
   \<and> channel_type (format (cropped b bbox)) = channel_type (format b)
   \<and> cstride (cropped b bbox) = cstride b
   \<and> rstride (cropped b bbox) = rstride b
   \<and> pstride (cropped b bbox) = pstride b
   \<and> unpremultiplied (cropped b bbox) = unpremultiplied b"
  by (simp add: cropped_fields ptr_add_def)

text \<open>
  The cropped buffer addresses the pixels of the original, shifted by the box's minimum
  corner; for a box of non-negative size below \<open>2 ^ 31\<close> the stored extent reads back as the
  box's width and height.
\<close>

lemma cropped_pixel_address:
  "pixel_address (cropped b bbox) i j p =
     pixel_address b (fst (bmin bbox) + i) (snd (bmin bbox) + j) p"
  by (simp add: pixel_address_def cropped_fields ptr_add_def algebra_simps)

lemma cropped_extent:
  assumes "0 \<le> width bbox" "width bbox < 2 ^ 31" "0 \<le> height bbox" "height bbox < 2 ^ 31"
  shows "uint (cols (format (cropped b bbox))) = width bbox"
    and "uint (rows (format (cropped b bbox))) = height bbox"
  using assms by (simp_all add: cropped_fields uint_word_of_int take_bit_int_eq_self)

text \<open>
  A buffer of 640 by 480 pixels of four bytes in three planes, cropped to the box of
  100 by 50 pixels at \<open>(10, 20)\<close>: the handle moves by \<open>4 * 10 + 2560 * 20\<close> bytes.
\<close>

theorem cropped_frame_witness:
  "cropped \<lparr>data = \<lparr>allocation = 7, byte_offset = 0\<rparr>,
            format = \<lparr>cols = 640, rows = 480, planes = 3, pixel_format = (), channel_type = ()\<rparr>,
            cstride = 4, rstride = 2560, pstride = 1228800, unpremultiplied = False\<rparr>
     (BBox2i_xywh 10 20 100 50)
   = \<lparr>data = \<lparr>allocation = 7, byte_offset = 51240\<rparr>,
      format = \<lparr>cols = 100, rows = 50, planes = 3, pixel_format = (), channel_type = ()\<rparr>,
      cstride = 4, rstride = 2560, pstride = 1228800, unpremultiplied = False\<rparr>"
  using cropped_frame [of "\<lparr>data = \<lparr>allocation = 7, byte_offset = 0\<rparr>,
            format = \<lparr>cols = 640, rows = 480, planes = 3, pixel_format = (), channel_type = ()\<rparr>,
            cstride = 4, rstride = 2560, pstride = 1228800, unpremultiplied = False\<rparr>"
            "BBox2i_xywh 10 20 100 50"]
  by (simp add: cropped_def Let_def ptr_add_def BBox2i_xywh_def width_def height_def)


section \<open>Properties of the correlator view\<close>

text \<open>
  Claim C10. For every correlator view and every coordinate \<open>(i, j, p)\<close>, access to a single
  pixel through \<^verbatim>\<open>operator()\<close> throws the not-implemented error, whatever the view and the
  coordinates: disparities are obtained by rasterizing a box only.
\<close>

theorem operator_call_throws:
  "operator_call cv i j p =
     Inl (NoImplErr ''CorrelatorView::operator()(double i, double j, int32 p) has not been implemented.'')
   \<and> isl (operator_call cv i j p)"
  by (simp add: operator_call_def)


subsection \<open>Construction and configuration\<close>

text \<open>The view that the constructor builds from two copies of the four by four tile.\<close>

lemma CorrelatorView_new_default:
  "CorrelatorView_new rat_ops tile4 tile4 () = Inr default_view"
  by (simp add: CorrelatorView_new_def default_view_def tile4_def rat_ops_def BBox2i_xywh_def)

text \<open>
  Claim C5, as the constructor decides it. Construction fails if and only if the two views
  differ in columns or in rows, or the channel count or the plane count of either view is
  not exactly one; the failure is an \<^verbatim>\<open>ArgumentErr\<close>, and a successful construction keeps the
  two views and the preprocessing function. A view with no plane at all is rejected like
  one with several planes.
\<close>

theorem CorrelatorView_new_fails_iff:
  "(isl (CorrelatorView_new fo left_image right_image preproc_func) \<longleftrightarrow>
      (im_cols left_image \<noteq> im_cols right_image \<or> im_rows left_image \<noteq> im_rows right_image
       \<or> im_channels left_image \<noteq> 1 \<or> im_planes left_image \<noteq> 1
       \<or> im_channels right_image \<noteq> 1 \<or> im_planes right_image \<noteq> 1))
   \<and> (case CorrelatorView_new fo left_image right_image preproc_func of
         Inl e \<Rightarrow> \<exists>msg. e = ArgumentErr msg
       | Inr cv \<Rightarrow> m_left_image cv = left_image \<and> m_right_image cv = right_image
                    \<and> m_preproc_func cv = preproc_func)"
  by (auto simp add: CorrelatorView_new_def)

text \<open>
  Two copies of the tile are accepted; a right view with one more column, two views of
  three planes and two views without planes are rejected.
\<close>

theorem CorrelatorView_new_fails_iff_witness:
  "\<not> isl (CorrelatorView_new rat_ops tile4 tile4 ())
   \<and> isl (CorrelatorView_new rat_ops tile4 (tile4\<lparr>im_cols := 5\<rparr>) ())
   \<and> isl (CorrelatorView_new rat_ops (tile4\<lparr>im_planes := 3\<rparr>) (tile4\<lparr>im_planes := 3\<rparr>) ())
   \<and> isl (CorrelatorView_new rat_ops no_image no_image ())"
  using CorrelatorView_new_fails_iff [of rat_ops tile4 tile4 "()"]
        CorrelatorView_new_fails_iff [of rat_ops tile4 "tile4\<lparr>im_cols := 5\<rparr>" "()"]
        CorrelatorView_new_fails_iff [of rat_ops "tile4\<lparr>im_planes := 3\<rparr>" "tile4\<lparr>im_planes := 3\<rparr>" "()"]
        CorrelatorView_new_fails_iff [of rat_ops no_image no_image "()"]
  by (simp add: tile4_def no_image_def)

text \<open>
  Claim C5 as stated fails on an empty view, one without columns, rows and planes (the
  kind of view that \<^verbatim>\<open>write_image\<close> refuses to write): given twice, the two views agree in
  size and neither has more than one channel or more than one plane, and the constructor
  raises the error of its second assertion.
\<close>

theorem CorrelatorView_new_rejects_zero_planes:
  "CorrelatorView_new rat_ops no_image no_image () =
     Inl (ArgumentErr
       (''CorrelatorView::CorrelatorView(): multi-channel, multi-plane images not supported.''
          @ [CHR 0x0A]))
   \<and> \<not> (im_cols no_image \<noteq> im_cols no_image \<or> im_rows no_image \<noteq> im_rows no_image
        \<or> im_channels no_image > 1 \<or> im_planes no_image > 1)"
  by (simp add: CorrelatorView_new_def no_image_def)

text \<open>
  Claim C4, as the class handles its configuration. The constructor takes neither a kernel
  size nor a search range; when it succeeds the kernel is 24 by 24 and the search range
  is \<open>[- 50, 50) \<times> [- 50, 50)\<close>. \<open>set_kernel_size\<close> and \<open>set_search_range\<close> store whatever they are
  given, and \<open>prerasterize\<close> hands the stored values to the correlator it constructs: the
  kernel size as it is, the search range as the box of its width and height at the origin.
  No step of the class checks a sign or an order.
\<close>

theorem configuration_stored_unchecked:
  "kernel_size (set_kernel_size ks cv) = ks
   \<and> search_range (set_search_range sr cv) = sr
   \<and> pc_kernel_size (make_correlator fo (set_kernel_size ks cv) bbox) = ks
   \<and> pc_search_range (make_correlator fo (set_search_range sr cv) bbox) =
       BBox2_xywh fo (f_of_int fo 0) (f_of_int fo 0) (f_of_int fo (width sr)) (f_of_int fo (height sr))
   \<and> (CorrelatorView_new fo left_image right_image preproc_func = Inr cv' \<longrightarrow>
         kernel_size cv' = (24, 24)
         \<and> search_range cv' = \<lparr>bmin = (- 50, - 50), bmax = (50, 50)\<rparr>)"
  by (auto simp add: kernel_size_def set_kernel_size_def search_range_def set_search_range_def
        make_correlator_def Let_def CorrelatorView_new_def BBox2i_xywh_def split: if_splits)

text \<open>
  The constructor's defaults on two copies of the tile, and a kernel of one pixel stored
  and handed on.
\<close>

theorem configuration_stored_unchecked_witness:
  "CorrelatorView_new rat_ops tile4 tile4 () = Inr default_view
   \<and> kernel_size default_view = (24, 24)
   \<and> search_range default_view = \<lparr>bmin = (- 50, - 50), bmax = (50, 50)\<rparr>
   \<and> kernel_size (set_kernel_size (1, 1) default_view) = (1, 1)
   \<and> pc_kernel_size (make_correlator rat_ops (set_kernel_size (1, 1) default_view)
        (BBox2i_xywh 0 0 2 2)) = (1, 1)"
  using configuration_stored_unchecked
          [of "(1, 1)" default_view "\<lparr>bmin = (0, 0), bmax = (1, 1)\<rparr>" rat_ops "BBox2i_xywh 0 0 2 2"
              tile4 tile4 "()" default_view]
        CorrelatorView_new_default
  by simp

text \<open>
  Claim C4 as stated fails: on a view that was constructed without error, a kernel of
  width 0 and height - 3 and a search range whose maximum lies below its minimum are
  stored as given, and the kernel reaches the correlator unchanged.
\<close>

theorem bad_configuration_accepted:
  "CorrelatorView_new rat_ops tile4 tile4 () = Inr default_view
   \<and> kernel_size (set_kernel_size (0, - 3) default_view) = (0, - 3)
   \<and> search_range (set_search_range \<lparr>bmin = (5, 5), bmax = (0, 0)\<rparr> default_view)
       = \<lparr>bmin = (5, 5), bmax = (0, 0)\<rparr>
   \<and> pc_kernel_size (make_correlator rat_ops (set_kernel_size (0, - 3) default_view)
        (BBox2i_xywh 0 0 2 2)) = (0, - 3)"
  by (simp add: CorrelatorView_new_default kernel_size_def set_kernel_size_def search_range_def
        set_search_range_def make_correlator_def Let_def)

subsection \<open>The crop regions\<close>

lemmas example_defs =
  small_view_def default_view_def ramp_correlator_def tile4_def rat_ops_def
  set_kernel_size_def set_search_range_def
  disparity_map_def make_correlator_def cropped_left_image_def cropped_right_image_def
  crop_def edge_extend_zero_def in_bounds_def
  left_crop_bbox_def right_crop_bbox_def kernel_adjust_def left_crop_sized_def
  right_crop_search_def BBox2i_xywh_def BBox2i_corners_def width_def height_def
  vadd_def vsub_def Let_def

lemma crop_boxes_explicit:
  "left_crop_bbox cv bbox =
     \<lparr>bmin = (fst (bmin bbox) - fst (m_kernel_size cv), snd (bmin bbox) - snd (m_kernel_size cv)),
      bmax = (fst (bmin bbox) + (width bbox + width (m_search_range cv)) + fst (m_kernel_size cv),
              snd (bmin bbox) + (height bbox + height (m_search_range cv)) + snd (m_kernel_size cv))\<rparr>"
  "right_crop_bbox cv bbox =
     \<lparr>bmin = (fst (bmin bbox) + fst (bmin (m_search_range cv)) - fst (m_kernel_size cv),
              snd (bmin bbox) + snd (bmin (m_search_range cv)) - snd (m_kernel_size cv)),
      bmax = (fst (bmax bbox) + fst (bmax (m_search_range cv)) + fst (m_kernel_size cv),
              snd (bmax bbox) + snd (bmax (m_search_range cv)) + snd (m_kernel_size cv))\<rparr>"
  by (cases bbox; simp add: left_crop_bbox_def right_crop_bbox_def kernel_adjust_def left_crop_sized_def
        right_crop_search_def BBox2i_corners_def vadd_def vsub_def width_def height_def Let_def)+

lemma crop_boxes_same_size:
  "width (left_crop_bbox cv bbox) = width (right_crop_bbox cv bbox)"
  "height (left_crop_bbox cv bbox) = height (right_crop_bbox cv bbox)"
  by (simp_all add: crop_boxes_explicit width_def height_def)

text \<open>
  Claim C1, as \<open>prerasterize\<close> computes the crops. Both crop regions are grown by the full
  kernel size on every side: the minimum corner decreases and the maximum corner
  increases by \<open>(kernel_width, kernel_height)\<close>. Each tile handed to the correlator has
  the size of its crop region, and its pixel \<open>(i, j)\<close> is the pixel of the source view at the
  region's minimum corner plus \<open>(i, j)\<close> when that position lies inside the view, and the zero
  pixel otherwise: a read outside the view is answered by the edge extension.
\<close>

theorem crops_padded_by_kernel_size:
  "bmin (left_crop_bbox cv bbox) = vsub (bmin (left_crop_sized cv bbox)) (m_kernel_size cv)
   \<and> bmax (left_crop_bbox cv bbox) = vadd (bmax (left_crop_sized cv bbox)) (m_kernel_size cv)
   \<and> bmin (right_crop_bbox cv bbox) = vsub (bmin (right_crop_search cv bbox)) (m_kernel_size cv)
   \<and> bmax (right_crop_bbox cv bbox) = vadd (bmax (right_crop_search cv bbox)) (m_kernel_size cv)
   \<and> im_cols (cropped_left_image cv bbox) = width (left_crop_bbox cv bbox)
   \<and> im_rows (cropped_left_image cv bbox) = height (left_crop_bbox cv bbox)
   \<and> im_cols (cropped_right_image cv bbox) = width (right_crop_bbox cv bbox)
   \<and> im_rows (cropped_right_image cv bbox) = height (right_crop_bbox cv bbox)
   \<and> pixel (cropped_left_image cv bbox) i j =
       (let x = fst (bmin (left_crop_bbox cv bbox)) + i; y = snd (bmin (left_crop_bbox cv bbox)) + j
        in if in_bounds (m_left_image cv) x y then pixel (m_left_image cv) x y else 0)
   \<and> pixel (cropped_right_image cv bbox) i j =
       (let x = fst (bmin (right_crop_bbox cv bbox)) + i; y = snd (bmin (right_crop_bbox cv bbox)) + j
        in if in_bounds (m_right_image cv) x y then pixel (m_right_image cv) x y else 0)"
  by (simp add: left_crop_bbox_def right_crop_bbox_def kernel_adjust_def vadd_def vsub_def
        cropped_left_image_def cropped_right_image_def crop_def edge_extend_zero_def Let_def)

text \<open>
  On the small view (kernel 1 by 1, search range \<open>[- 1, 1) \<times> [2, 4)\<close>) and the box
  \<open>[0, 2) \<times> [0, 2)\<close>: the two regions, and pixels of the two tiles inside and outside the
  four by four source.
\<close>

theorem crops_padded_by_kernel_size_witness:
  "left_crop_bbox small_view (BBox2i_xywh 0 0 2 2) = \<lparr>bmin = (- 1, - 1), bmax = (5, 5)\<rparr>
   \<and> right_crop_bbox small_view (BBox2i_xywh 0 0 2 2) = \<lparr>bmin = (- 2, 1), bmax = (4, 7)\<rparr>
   \<and> pixel (cropped_left_image small_view (BBox2i_xywh 0 0 2 2)) 0 0 = 0
   \<and> pixel (cropped_left_image small_view (BBox2i_xywh 0 0 2 2)) 1 1 = 1
   \<and> pixel (cropped_right_image small_view (BBox2i_xywh 0 0 2 2)) 2 0 = 5
   \<and> pixel (cropped_right_image small_view (BBox2i_xywh 0 0 2 2)) 2 5 = 0"
  using crops_padded_by_kernel_size [of small_view "BBox2i_xywh 0 0 2 2" 0 0]
  by (simp add: small_view_def default_view_def tile4_def
  set_kernel_size_def set_search_range_def
  cropped_left_image_def cropped_right_image_def
  crop_def edge_extend_zero_def in_bounds_def
  left_crop_bbox_def right_crop_bbox_def kernel_adjust_def left_crop_sized_def
  right_crop_search_def BBox2i_xywh_def BBox2i_corners_def width_def height_def
  vadd_def vsub_def Let_def)

text \<open>
  Claim C1 as stated fails: with the default kernel of 24 by 24 and the box
  \<open>[0, 10) \<times> [0, 10)\<close>, the left crop region starts at \<open>(- 24, - 24)\<close>, not at
  \<open>(- 12, - 12)\<close> as a padding of half the kernel would give.
\<close>

theorem crops_not_padded_by_half_kernel:
  "bmin (left_crop_bbox default_view (BBox2i_xywh 0 0 10 10))
     \<noteq> vsub (bmin (left_crop_sized default_view (BBox2i_xywh 0 0 10 10)))
            (fst (m_kernel_size default_view) div 2, snd (m_kernel_size default_view) div 2)
   \<and> bmin (left_crop_sized default_view (BBox2i_xywh 0 0 10 10)) = (0, 0)
   \<and> m_kernel_size default_view = (24, 24)
   \<and> bmin (left_crop_bbox default_view (BBox2i_xywh 0 0 10 10)) = (- 24, - 24)
   \<and> bmax (left_crop_bbox default_view (BBox2i_xywh 0 0 10 10)) = (134, 134)
   \<and> bmin (right_crop_bbox default_view (BBox2i_xywh 0 0 10 10)) = (- 74, - 74)
   \<and> bmax (right_crop_bbox default_view (BBox2i_xywh 0 0 10 10)) = (84, 84)"
  by (simp add: default_view_def left_crop_bbox_def right_crop_bbox_def kernel_adjust_def left_crop_sized_def
  right_crop_search_def BBox2i_xywh_def BBox2i_corners_def width_def height_def
  vadd_def vsub_def Let_def)

subsection \<open>The adjustment loops\<close>

lemma succ_le_iff: "(u + 1 \<le> i) = (u \<le> i \<and> i \<noteq> u)" for u i :: int
  by auto

lemma adjust_pixel_size:
  "im_cols (adjust_pixel fo sr u v dm) = im_cols dm"
  "im_rows (adjust_pixel fo sr u v dm) = im_rows dm"
  by (simp_all add: adjust_pixel_def update_pixel_def Let_def)

lemma adjust_pixel_pixel:
  "pixel (adjust_pixel fo sr u v dm) i j =
     (if i = u \<and> j = v \<and> \<not> missing (pixel dm i j)
      then (pixel dm i j)\<lparr>disp_h := f_add fo (disp_h (pixel dm i j)) (f_of_int fo (fst (bmin sr))),
                          disp_v := f_add fo (disp_v (pixel dm i j)) (f_of_int fo (snd (bmin sr)))\<rparr>
      else pixel dm i j)"
  by (auto simp add: adjust_pixel_def update_pixel_def Let_def)

lemma adjust_row_size:
  "im_cols (adjust_row fo sr v u dm) = im_cols dm \<and> im_rows (adjust_row fo sr v u dm) = im_rows dm"
proof (induction fo sr v u dm rule: adjust_row.induct)
  case (1 fo sr v u dm)
  show ?case
  proof (cases "u < im_cols dm")
    case True
    then have "adjust_row fo sr v u dm = adjust_row fo sr v (u + 1) (adjust_pixel fo sr u v dm)"
      by (subst adjust_row.simps) simp
    with True "1.IH" show ?thesis
      by (simp add: adjust_pixel_size)
  next
    case False
    then show ?thesis
      by (subst (1 2) adjust_row.simps) simp
  qed
qed

lemma adjust_row_pixel:
  "pixel (adjust_row fo sr v u dm) i j =
     (if j = v \<and> u \<le> i \<and> i < im_cols dm \<and> \<not> missing (pixel dm i j)
      then (pixel dm i j)\<lparr>disp_h := f_add fo (disp_h (pixel dm i j)) (f_of_int fo (fst (bmin sr))),
                          disp_v := f_add fo (disp_v (pixel dm i j)) (f_of_int fo (snd (bmin sr)))\<rparr>
      else pixel dm i j)"
proof (induction fo sr v u dm rule: adjust_row.induct)
  case (1 fo sr v u dm)
  show ?case
  proof (cases "u < im_cols dm")
    case True
    then have step: "adjust_row fo sr v u dm = adjust_row fo sr v (u + 1) (adjust_pixel fo sr u v dm)"
      by (subst adjust_row.simps) simp
    show ?thesis
      unfolding step using True
      by (auto simp add: "1.IH" adjust_pixel_size adjust_pixel_pixel succ_le_iff)
  next
    case False
    then have "adjust_row fo sr v u dm = dm"
      by (subst adjust_row.simps) simp
    with False show ?thesis
      by auto
  qed
qed

lemma adjust_rows_size:
  "im_cols (adjust_rows fo sr v dm) = im_cols dm \<and> im_rows (adjust_rows fo sr v dm) = im_rows dm"
proof (induction fo sr v dm rule: adjust_rows.induct)
  case (1 fo sr v dm)
  show ?case
  proof (cases "v < im_rows dm")
    case True
    then have "adjust_rows fo sr v dm = adjust_rows fo sr (v + 1) (adjust_row fo sr v 0 dm)"
      by (subst adjust_rows.simps) simp
    with True "1.IH" show ?thesis
      by (simp add: adjust_row_size)
  next
    case False
    then show ?thesis
      by (subst (1 2) adjust_rows.simps) simp
  qed
qed

lemma adjust_rows_pixel:
  "pixel (adjust_rows fo sr v dm) i j =
     (if v \<le> j \<and> j < im_rows dm \<and> 0 \<le> i \<and> i < im_cols dm \<and> \<not> missing (pixel dm i j)
      then (pixel dm i j)\<lparr>disp_h := f_add fo (disp_h (pixel dm i j)) (f_of_int fo (fst (bmin sr))),
                          disp_v := f_add fo (disp_v (pixel dm i j)) (f_of_int fo (snd (bmin sr)))\<rparr>
      else pixel dm i j)"
proof (induction fo sr v dm rule: adjust_rows.induct)
  case (1 fo sr v dm)
  show ?case
  proof (cases "v < im_rows dm")
    case True
    then have step: "adjust_rows fo sr v dm = adjust_rows fo sr (v + 1) (adjust_row fo sr v 0 dm)"
      by (subst adjust_rows.simps) simp
    show ?thesis
      unfolding step using True
      by (auto simp add: "1.IH" adjust_row_size adjust_row_pixel succ_le_iff)
  next
    case False
    then have "adjust_rows fo sr v dm = dm"
      by (subst adjust_rows.simps) simp
    with False show ?thesis
      by auto
  qed
qed

lemma adjust_disparities_pixel:
  "pixel (adjust_disparities fo sr dm) i j =
     (if 0 \<le> j \<and> j < im_rows dm \<and> 0 \<le> i \<and> i < im_cols dm \<and> \<not> missing (pixel dm i j)
      then (pixel dm i j)\<lparr>disp_h := f_add fo (disp_h (pixel dm i j)) (f_of_int fo (fst (bmin sr))),
                          disp_v := f_add fo (disp_v (pixel dm i j)) (f_of_int fo (snd (bmin sr)))\<rparr>
      else pixel dm i j)"
  by (simp add: adjust_disparities_def adjust_rows_pixel)

lemma adjust_disparities_size:
  "im_cols (adjust_disparities fo sr dm) = im_cols dm"
  "im_rows (adjust_disparities fo sr dm) = im_rows dm"
  by (simp_all add: adjust_disparities_def adjust_rows_size)

lemma prerasterize_child:
  "child (fst (prerasterize corr fo cv bbox lg)) =
     adjust_disparities fo (m_search_range cv) (disparity_map corr fo cv bbox)"
  by (simp add: prerasterize_def Let_def CropView_of_def)

text \<open>
  Claim C2. In \<open>prerasterize\<close>, for every pixel \<open>(u, v)\<close> of the disparity map the correlator
  produced: a pixel that is not missing has the search range's minimum x offset added to
  its horizontal disparity and the minimum y offset added to its vertical disparity; a
  missing pixel is left as it is. (A position outside the map is not touched either.)
\<close>

theorem prerasterize_adjusts_disparities:
  "pixel (child (fst (prerasterize corr fo cv bbox lg))) u v =
     (let dm = disparity_map corr fo cv bbox; d = pixel dm u v
      in if 0 \<le> u \<and> u < im_cols dm \<and> 0 \<le> v \<and> v < im_rows dm \<and> \<not> missing d
         then d\<lparr>disp_h := f_add fo (disp_h d) (f_of_int fo (fst (bmin (m_search_range cv)))),
                disp_v := f_add fo (disp_v d) (f_of_int fo (snd (bmin (m_search_range cv))))\<rparr>
         else d)"
  by (simp add: prerasterize_child adjust_disparities_pixel Let_def)


text \<open>
  On the small view and the box \<open>[0, 2) \<times> [0, 2)\<close> the correlator's map is six by six. Its
  pixel \<open>(1, 2)\<close> holds \<open>(1, 2)\<close> and becomes \<open>(1 - 1, 2 + 2)\<close>; its pixel \<open>(1, 1)\<close> is missing
  and stays.
\<close>

theorem prerasterize_adjusts_disparities_witness:
  "pixel (child (fst (prerasterize ramp_correlator rat_ops small_view (BBox2i_xywh 0 0 2 2) []))) 1 2
     = \<lparr>disp_h = 0, disp_v = 4, missing = False\<rparr>
   \<and> pixel (child (fst (prerasterize ramp_correlator rat_ops small_view (BBox2i_xywh 0 0 2 2) []))) 1 1
     = \<lparr>disp_h = 1, disp_v = 1, missing = True\<rparr>"
  using prerasterize_adjusts_disparities
          [of ramp_correlator rat_ops small_view "BBox2i_xywh 0 0 2 2" "[]" 1 2]
        prerasterize_adjusts_disparities
          [of ramp_correlator rat_ops small_view "BBox2i_xywh 0 0 2 2" "[]" 1 1]
  by (simp add: example_defs)

subsection \<open>The returned crop\<close>

text \<open>
  Claim C3. For every box (the non-empty ones among them), the crop that \<open>prerasterize\<close>
  returns has the box's width as its number of columns and the box's height as its number
  of rows. Read at a coordinate \<open>(x, y)\<close> of the box, it yields the pixel of the adjusted
  disparity map at the kernel size plus the offset of \<open>(x, y)\<close> from the box's minimum
  corner: the kernel padding before the box and everything beyond the box's size are
  left out.
\<close>

theorem prerasterize_cropped_to_bbox:
  "crop_cols (fst (prerasterize corr fo cv bbox lg)) = width bbox
   \<and> crop_rows (fst (prerasterize corr fo cv bbox lg)) = height bbox
   \<and> crop_at (fst (prerasterize corr fo cv bbox lg)) x y =
       pixel (adjust_disparities fo (m_search_range cv) (disparity_map corr fo cv bbox))
         (fst (m_kernel_size cv) + (x - fst (bmin bbox)))
         (snd (m_kernel_size cv) + (y - snd (bmin bbox)))"
  by (simp add: prerasterize_def Let_def CropView_of_def crop_cols_def crop_rows_def crop_at_def
        BBox2i_xywh_def width_def height_def algebra_simps)

text \<open>
  On the small view and the box \<open>[3, 5) \<times> [5, 7)\<close> the crop is two by two; read at \<open>(4, 5)\<close> it
  yields the pixel \<open>(2, 1)\<close> of the adjusted map, which holds \<open>(2 - 1, 1 + 2)\<close>.
\<close>

theorem prerasterize_cropped_to_bbox_witness:
  "\<not> empty_box (BBox2i_xywh 3 5 2 2)
   \<and> crop_cols (fst (prerasterize ramp_correlator rat_ops small_view (BBox2i_xywh 3 5 2 2) [])) = 2
   \<and> crop_rows (fst (prerasterize ramp_correlator rat_ops small_view (BBox2i_xywh 3 5 2 2) [])) = 2
   \<and> crop_at (fst (prerasterize ramp_correlator rat_ops small_view (BBox2i_xywh 3 5 2 2) [])) 4 5
       = \<lparr>disp_h = 1, disp_v = 3, missing = False\<rparr>"
  using prerasterize_cropped_to_bbox [of ramp_correlator rat_ops small_view "BBox2i_xywh 3 5 2 2" "[]" 4 5]
  by (simp add: adjust_disparities_pixel example_defs empty_box_def)

subsection \<open>The log\<close>

text \<open>
  What \<open>prerasterize\<close> writes: four entries are appended to the log it is given, and the log
  is not read. Whether two calls return the same tile rests on the correlator, the
  preprocessing function and the generic \<^verbatim>\<open>vw::rasterize\<close>, none of which is among the
  sources; they are arguments here, and nothing is stated about repeated calls.
\<close>

lemma prerasterize_log:
  "snd (prerasterize corr fo cv bbox lg) =
     lg @ [Info_rasterizing bbox, Debug_search_range (m_search_range cv),
           Debug_left_crop_bbox (left_crop_bbox cv bbox),
           Debug_right_crop_bbox (right_crop_bbox cv bbox)]"
  by (simp add: prerasterize_def Let_def)


section \<open>Properties of the optimizer\<close>















end
